theory Spec2Isabelle
  imports Complex_Main "HOL-Library.Sublist"
begin

section \<open>Shared data model\<close>

text \<open>
  Exceptions of the two modules, as values. \<open>RequestError msg status\<close> is
  \<^verbatim>\<open>RequestError(msg, status=...)\<close> (status \<open>None\<close> when the keyword is not given);
  \<open>RuntimeError args\<close> and \<open>HTTPClientError args\<close> carry the exception's \<^verbatim>\<open>args\<close> tuple;
  \<open>TypeError\<close> and \<open>IndexError\<close> are the interpreter's own errors on subscripting
  \<^verbatim>\<open>None\<close> and an empty tuple; \<open>OtherError\<close> is any exception the code never catches.
\<close>

datatype exn =
    RequestError string "nat option"
  | TypeError
  | IndexError
  | BlankImage
  | SourceError string
  | RuntimeError "string list"
  | HTTPClientError "string list"
  | OtherError string

text \<open>A bounding box is the 4-tuple \<open>(minX, minY, maxX, maxY)\<close>; coordinates are
  modelled as reals. A tile coordinate is the tuple \<open>(x, y, z)\<close>.\<close>

type_synonym bbox = "real \<times> real \<times> real \<times> real"
type_synonym tile_coord = "int \<times> int \<times> int"

definition minx :: "bbox \<Rightarrow> real" where "minx b = fst b"
definition miny :: "bbox \<Rightarrow> real" where "miny b = fst (snd b)"
definition maxx :: "bbox \<Rightarrow> real" where "maxx b = fst (snd (snd b))"
definition maxy :: "bbox \<Rightarrow> real" where "maxy b = snd (snd (snd b))"

definition tile_level :: "tile_coord \<Rightarrow> int" where "tile_level t = snd (snd t)"

section \<open>service/kml.py: authorization\<close>

text \<open>
  The value returned by the \<^verbatim>\<open>mapproxy.authorize\<close> callback:
  \<^verbatim>\<open>{'authorized': ..., 'layers': {name: {'tile': bool, ...}}}\<close>.
  The HTTP environment is a dict; only its \<^verbatim>\<open>'mapproxy.authorize'\<close> entry is read, so
  it is a record with that one optional entry (\<open>None\<close>: the key is absent).
\<close>

record auth_result =
  authorized :: string
  layers :: "string \<rightharpoonup> (string \<rightharpoonup> bool)"

record http_env =
  mapproxy_authorize :: "(string \<Rightarrow> string list \<Rightarrow> auth_result) option"

text \<open>\<^verbatim>\<open>d.get(k, default)\<close>.\<close>

definition dict_get :: "('k \<rightharpoonup> 'v) \<Rightarrow> 'k \<Rightarrow> 'v \<Rightarrow> 'v" where
  "dict_get d k dflt = (case d k of None \<Rightarrow> dflt | Some v \<Rightarrow> v)"

definition authorize_tile_layer :: "string \<Rightarrow> http_env \<Rightarrow> exn + unit" where
  "authorize_tile_layer layer_name env =
     (case mapproxy_authorize env of
        None \<Rightarrow> Inr ()
      | Some f \<Rightarrow>
          (let result = f ''kml'' [layer_name] in
           if authorized result = ''full'' then Inr ()
           else if authorized result = ''partial''
                   \<and> dict_get (dict_get (layers result) layer_name Map.empty) ''tile'' False = True
                then Inr ()
           else Inl (RequestError ''forbidden'' (Some 403))))"

section \<open>service/kml.py: grid, layers and requests\<close>

text \<open>
  Python names that start with an underscore (\<^verbatim>\<open>_tile_bbox\<close>, \<^verbatim>\<open>_render_mapfile\<close>) are
  written with the prefix \<open>u_\<close> here.

  The grid and its spatial reference are objects of \<^verbatim>\<open>mapproxy.grid\<close> and
  \<^verbatim>\<open>mapproxy.srs\<close>, which the two modules only call. They are records of the
  methods that are called: \<open>transform_bbox_to srs target_code bbox with_points\<close>,
  \<open>grid_internal_tile_coord grid coord use_profiles\<close> (\<open>None\<close> when the coordinate is
  no cell of the grid), \<open>grid_tile_bbox\<close>, and \<open>grid_get_affected_level_tiles grid bbox level\<close>,
  which returns \<open>(bbox, (columns, rows), tiles)\<close> where an entry of \<open>tiles\<close> may be
  \<^verbatim>\<open>None\<close>; it receives whatever \<^verbatim>\<open>_tile_bbox\<close> returned, \<^verbatim>\<open>None\<close> included, and may raise.
\<close>

record srs_t =
  srs_code :: nat
  transform_bbox_to :: "nat \<Rightarrow> bbox \<Rightarrow> nat \<Rightarrow> bbox"

record grid_t =
  grid_srs :: srs_t
  grid_tile_size :: "nat \<times> nat"
  grid_internal_tile_coord :: "tile_coord \<Rightarrow> bool \<Rightarrow> tile_coord option"
  grid_tile_bbox :: "tile_coord \<Rightarrow> bbox"
  grid_get_affected_level_tiles ::
    "bbox option \<Rightarrow> int \<Rightarrow> exn + (bbox \<times> (nat \<times> nat) \<times> tile_coord option list)"

record layer_t =
  layer_name :: string
  layer_grid :: grid_t
  layer_format :: string
  layer_md :: "(string \<times> string) list"

record tile_request =
  req_layer :: string
  req_tile :: tile_coord
  req_format :: string
  req_environ :: http_env
  req_script_url :: string

text \<open>\<^verbatim>\<open>class SubTile\<close>: the \<open>coord\<close> and the \<open>bbox\<close> of a sub tile.\<close>

record SubTile =
  coord :: tile_coord
  bbox :: bbox

text \<open>Modelled from the spec: \<^verbatim>\<open>grid.srs == SRS(code)\<close>, the equality of
  \<^verbatim>\<open>mapproxy.srs.SRS\<close> (not among the sources); the spec says of a spatial reference
  that "equality is by identifier".\<close>

definition srs_is :: "srs_t \<Rightarrow> nat \<Rightarrow> bool" where
  "srs_is s code = (srs_code s = code)"

definition set_miny :: "bbox \<Rightarrow> real \<Rightarrow> bbox" where
  "set_miny b v = (minx b, v, maxx b, maxy b)"

definition set_maxy :: "bbox \<Rightarrow> real \<Rightarrow> bbox" where
  "set_maxy b v = (minx b, miny b, maxx b, v)"

section \<open>service/kml.py: bounding boxes and subdivision\<close>

definition u_tile_bbox :: "tile_coord \<Rightarrow> grid_t \<Rightarrow> bbox option" where
  "u_tile_bbox tile_coord grid =
     (case grid_internal_tile_coord grid tile_coord False of
        None \<Rightarrow> None
      | Some tc \<Rightarrow> Some (grid_tile_bbox grid tc))"

definition u_tile_bbox_to_wgs :: "bbox \<Rightarrow> grid_t \<Rightarrow> bbox" where
  "u_tile_bbox_to_wgs src_bbox grid =
     (let b = transform_bbox_to (grid_srs grid) 4326 src_bbox 4 in
      if srs_is (grid_srs grid) 900913 then
        (let b1 = (if \<bar>miny src_bbox - (- 20037508.342789244)\<bar> < 0.1
                   then set_miny b (- 90.0) else b);
             b2 = (if \<bar>maxy src_bbox - 20037508.342789244\<bar> < 0.1
                   then set_maxy b1 90.0 else b1)
         in b2)
      else b)"

definition u_tile_wgs_bbox :: "tile_coord \<Rightarrow> grid_t \<Rightarrow> bbox option" where
  "u_tile_wgs_bbox tile_coord grid =
     (case u_tile_bbox tile_coord grid of
        None \<Rightarrow> None
      | Some src_bbox \<Rightarrow> Some (u_tile_bbox_to_wgs src_bbox grid))"

text \<open>
  The loop of \<^verbatim>\<open>_get_subtiles\<close> over the candidate coordinates. \<open>pbox\<close> is the parent's
  box as \<^verbatim>\<open>_tile_bbox\<close> returned it; subscripting it when it is \<^verbatim>\<open>None\<close> raises
  \<open>TypeError\<close>, which ends the loop.
\<close>

fun subtiles_loop :: "bbox option \<Rightarrow> grid_t \<Rightarrow> tile_coord option list \<Rightarrow> exn + SubTile list" where
  "subtiles_loop pbox grid [] = Inr []"
| "subtiles_loop pbox grid (None # tiles) = subtiles_loop pbox grid tiles"
| "subtiles_loop pbox grid (Some c # tiles) =
     (case u_tile_bbox c grid of
        None \<Rightarrow> subtiles_loop pbox grid tiles
      | Some sub_bbox \<Rightarrow>
          (case pbox of
             None \<Rightarrow> Inl TypeError
           | Some b \<Rightarrow>
               if minx sub_bbox \<ge> minx b \<and> miny sub_bbox \<ge> miny b
               then (case subtiles_loop pbox grid tiles of
                       Inl e \<Rightarrow> Inl e
                     | Inr rest \<Rightarrow>
                         Inr (\<lparr>coord = c, bbox = u_tile_bbox_to_wgs sub_bbox grid\<rparr> # rest))
               else subtiles_loop pbox grid tiles))"

definition u_get_subtiles :: "tile_coord \<Rightarrow> layer_t \<Rightarrow> exn + ((nat \<times> nat) \<times> SubTile list)" where
  "u_get_subtiles tile layer =
     (let pbox = u_tile_bbox tile (layer_grid layer) in
      case grid_get_affected_level_tiles (layer_grid layer) pbox (tile_level tile + 1) of
        Inl e \<Rightarrow> Inl e
      | Inr (bbox', tile_grid, tiles) \<Rightarrow>
          (case subtiles_loop pbox (layer_grid layer) tiles of
             Inl e \<Rightarrow> Inl e
           | Inr subtiles \<Rightarrow> Inr (tile_grid, subtiles)))"

section \<open>service/kml.py: the KML request\<close>

text \<open>\<^verbatim>\<open>KMLServer.layer\<close>: the layer of the request, by its name or by the name with
  one of the two suffixes.\<close>

definition layer :: "(string \<rightharpoonup> layer_t) \<Rightarrow> tile_request \<Rightarrow> exn + layer_t" where
  "layer ls tile_request =
     (case ls (req_layer tile_request) of Some l \<Rightarrow> Inr l
      | None \<Rightarrow>
     (case ls (req_layer tile_request @ ''_EPSG4326'') of Some l \<Rightarrow> Inr l
      | None \<Rightarrow>
     (case ls (req_layer tile_request @ ''_EPSG900913'') of Some l \<Rightarrow> Inr l
      | None \<Rightarrow> Inl (RequestError (''unknown layer: '' @ req_layer tile_request) None))))"

text \<open>\<^verbatim>\<open>s.rstrip('/')\<close>.\<close>

definition rstrip_slash :: "string \<Rightarrow> string" where
  "rstrip_slash s = rev (dropWhile (\<lambda>c. c = CHR ''/'') (rev s))"

text \<open>
  What \<^verbatim>\<open>KMLServer.kml\<close> hands to the template: the response is the template's output
  for these arguments, with headers computed from it.
\<close>

record kml_doc =
  doc_tile :: SubTile
  doc_subtiles :: "SubTile list"
  doc_layer_name :: string
  doc_layer_format :: string
  doc_layer_md :: "(string \<times> string) list"
  doc_service_url :: string
  doc_initial_level :: bool
  doc_subtile_grid :: "nat \<times> nat"
  doc_tile_size :: nat

definition kml :: "(string \<rightharpoonup> layer_t) \<Rightarrow> tile_request \<Rightarrow> exn + kml_doc" where
  "kml ls map_request =
     (case layer ls map_request of
        Inl e \<Rightarrow> Inl e
      | Inr l \<Rightarrow>
     (case authorize_tile_layer (layer_name l) (req_environ map_request) of
        Inl e \<Rightarrow> Inl e
      | Inr _ \<Rightarrow>
     (let tile_coord = req_tile map_request;
          initial_level = (tile_level tile_coord = 0)
      in case u_tile_wgs_bbox tile_coord (layer_grid l) of
        None \<Rightarrow> Inl (RequestError
          ''The requested tile is outside the bounding box of the tile map.'' None)
      | Some b \<Rightarrow>
     (case u_get_subtiles tile_coord l of
        Inl e \<Rightarrow> Inl e
      | Inr (subtile_grid, subtiles) \<Rightarrow>
          Inr \<lparr>doc_tile = \<lparr>coord = tile_coord, bbox = b\<rparr>,
               doc_subtiles = subtiles,
               doc_layer_name = req_layer map_request,
               doc_layer_format = layer_format l,
               doc_layer_md = layer_md l,
               doc_service_url = rstrip_slash (req_script_url map_request),
               doc_initial_level = initial_level,
               doc_subtile_grid = subtile_grid,
               doc_tile_size = fst (grid_tile_size (layer_grid l))\<rparr>))))"

section \<open>A tile pyramid for the grid\<close>

text \<open>
  Modelled from the spec: the grid of \<^verbatim>\<open>mapproxy.grid\<close> (\<^verbatim>\<open>internal_tile_coord\<close>,
  \<^verbatim>\<open>tile_bbox\<close>, \<^verbatim>\<open>get_affected_level_tiles\<close>), which is not among the sources. The spec
  describes it as a "hierarchical decomposition of a spatial extent into fixed-size cells
  per zoom level, each level having twice the cell density of the previous", whose
  candidates for a box are the tiles of the level "whose bounding boxes are affected by /
  overlap" the box, "four (or, at grid edges, fewer)" for a parent tile.

  Level 0 has \<open>cols0 \<times> rows0\<close> cells of extent \<open>cell_w \<times> cell_h\<close> from the origin; every
  further level halves the cell extent; there are \<open>levels\<close> levels. A coordinate outside
  the level's cells, or at no level, is no cell. The candidates of a box are the cells of
  the level that share an area with it, row by row; a position outside the grid is the
  entry \<^verbatim>\<open>None\<close>. A box that is \<^verbatim>\<open>None\<close> cannot be subscripted: \<open>TypeError\<close>.
\<close>

record pyramid =
  origin_x :: real
  origin_y :: real
  cell_w :: real
  cell_h :: real
  cols0 :: nat
  rows0 :: nat
  levels :: nat
  pyr_srs :: srs_t
  pyr_tile_size :: "nat \<times> nat"

text \<open>Modelled from the spec: which coordinates are cells ("level \<ge> 0", the level's
  extent of twice the cells of the level before, in each axis).\<close>

definition pyr_valid :: "pyramid \<Rightarrow> tile_coord \<Rightarrow> bool" where
  "pyr_valid p t =
     (case t of (x, y, z) \<Rightarrow>
        0 \<le> z \<and> nat z < levels p
        \<and> 0 \<le> x \<and> x < int (cols0 p) * 2 ^ nat z
        \<and> 0 \<le> y \<and> y < int (rows0 p) * 2 ^ nat z)"

text \<open>Modelled from the spec: \<^verbatim>\<open>grid.internal_tile_coord\<close>, \<^verbatim>\<open>None\<close> for a coordinate that
  "maps to no valid cell".\<close>

definition pyr_internal_tile_coord :: "pyramid \<Rightarrow> tile_coord \<Rightarrow> bool \<Rightarrow> tile_coord option" where
  "pyr_internal_tile_coord p t use_profiles = (if pyr_valid p t then Some t else None)"

text \<open>Modelled from the spec: \<^verbatim>\<open>grid.tile_bbox\<close>, the "function mapping a (coordinate,
  level) to a BoundingBox in the native reference".\<close>

definition pyr_tile_bbox :: "pyramid \<Rightarrow> tile_coord \<Rightarrow> bbox" where
  "pyr_tile_bbox p t =
     (case t of (x, y, z) \<Rightarrow>
        (let w = cell_w p / 2 ^ nat z; h = cell_h p / 2 ^ nat z
         in (origin_x p + of_int x * w, origin_y p + of_int y * h,
             origin_x p + of_int (x + 1) * w, origin_y p + of_int (y + 1) * h)))"

text \<open>Modelled from the spec: \<^verbatim>\<open>grid.get_affected_level_tiles\<close>, the tiles of a level
  "whose bounding boxes are affected by / overlap" the box: the columns and rows of the
  cells that share an area with it.\<close>

definition pyr_get_affected_level_tiles ::
  "pyramid \<Rightarrow> bbox option \<Rightarrow> int \<Rightarrow> exn + (bbox \<times> (nat \<times> nat) \<times> tile_coord option list)" where
  "pyr_get_affected_level_tiles p box level =
     (case box of
        None \<Rightarrow> Inl TypeError
      | Some b \<Rightarrow>
          (let w = cell_w p / 2 ^ nat level; h = cell_h p / 2 ^ nat level;
               x0 = \<lfloor>(minx b - origin_x p) / w\<rfloor>; x1 = \<lceil>(maxx b - origin_x p) / w\<rceil> - 1;
               y0 = \<lfloor>(miny b - origin_y p) / h\<rfloor>; y1 = \<lceil>(maxy b - origin_y p) / h\<rceil> - 1;
               xs = [x0..x1]; ys = [y0..y1];
               tiles = concat (map (\<lambda>y. map (\<lambda>x. pyr_internal_tile_coord p (x, y, level) False) xs)
                                   (rev ys))
           in Inr ((origin_x p + of_int x0 * w, origin_y p + of_int y0 * h,
                    origin_x p + of_int (x1 + 1) * w, origin_y p + of_int (y1 + 1) * h),
                   (length xs, length ys), tiles)))"

text \<open>Modelled from the spec: the pyramid as the grid object that \<^verbatim>\<open>kml.py\<close> calls.\<close>

definition pyramid_grid :: "pyramid \<Rightarrow> grid_t" where
  "pyramid_grid p =
     \<lparr>grid_srs = pyr_srs p,
      grid_tile_size = pyr_tile_size p,
      grid_internal_tile_coord = pyr_internal_tile_coord p,
      grid_tile_bbox = pyr_tile_bbox p,
      grid_get_affected_level_tiles = pyr_get_affected_level_tiles p\<rparr>"


subsection \<open>Subdividing twice, in the spec's two readings\<close>




definition corner_in_box :: "bbox \<Rightarrow> bbox \<Rightarrow> bool" where
  "corner_in_box sub_bbox b =
     (minx b \<le> minx sub_bbox \<and> minx sub_bbox \<le> maxx b
      \<and> miny b \<le> miny sub_bbox \<and> miny sub_bbox \<le> maxy b)"


section \<open>source/mapnik.py\<close>

text \<open>
  The render query (\<open>bbox\<close>, pixel \<open>size\<close>, the \<^verbatim>\<open>srs_code\<close> of its \<open>srs\<close>, \<open>format\<close>),
  the two optional applicability checks, and the source. \<^verbatim>\<open>self.lock\<close> is a factory of
  context managers; it is the name of the lock that entering acquires and leaving releases.
\<close>

record MapQuery =
  q_bbox :: bbox
  q_size :: "int \<times> int"
  q_srs :: string
  q_format :: string

record res_range_t =
  contains :: "bbox \<Rightarrow> int \<times> int \<Rightarrow> string \<Rightarrow> bool"

record coverage_t =
  cov_bbox :: bbox
  cov_srs :: string
  intersects :: "bbox \<Rightarrow> string \<Rightarrow> bool"

record MapnikSource =
  mapfile :: string
  coverage :: "coverage_t option"
  res_range :: "res_range_t option"
  lock :: "nat option"
  opacity :: "real option"
  transparent :: "bool option"

record ImageSource =
  img_data :: string
  img_size :: "int \<times> int"
  img_transparent :: "bool option"
  img_format :: string
  img_opacity :: "real option"

text \<open>
  What \<^verbatim>\<open>log_request\<close> is called with: the four parts of the formatted key, then
  \<open>status\<close>, \<open>size\<close>, \<open>method\<close> and \<open>duration\<close>.
\<close>

record log_entry =
  log_mapfile :: string
  log_bbox :: bbox
  log_srs :: string
  log_size :: "int \<times> int"
  log_status :: string
  log_bytes :: "nat option"
  log_method :: string
  log_duration :: real

datatype event =
    LockAcquire nat
  | LockRelease nat
  | BackendInvoke string MapQuery
  | LogRequest log_entry

text \<open>
  The world a render call acts on: the clock that \<^verbatim>\<open>time.time()\<close> reads, the locks that
  are held, and the sequence of what happened. A single execution is modelled: entering
  the lock's context adds the lock to \<open>held\<close>, leaving it removes it.
\<close>

record world =
  clock :: real
  held :: "nat set"
  trace :: "event list"

text \<open>
  The collaborators that are called: \<open>backend mapfile query\<close> is the body of the
  \<^verbatim>\<open>try\<close> block of \<^verbatim>\<open>_render_mapfile\<close> (the calls into the \<^verbatim>\<open>mapnik\<close> library): the image
  bytes or the exception raised, and the time it took. \<open>webmercator_mapfile mapfile query\<close>
  is the level lookup on \<^verbatim>\<open>tile_grid(3857)\<close> with the substitution of the level into the map
  file's name, which may raise.
\<close>

record collaborators =
  backend :: "string \<Rightarrow> MapQuery \<Rightarrow> (exn + string) \<times> real"
  webmercator_mapfile :: "string \<Rightarrow> MapQuery \<Rightarrow> exn + string"

definition log_request :: "log_entry \<Rightarrow> world \<Rightarrow> world" where
  "log_request e w = w\<lparr>trace := trace w @ [LogRequest e]\<rparr>"

definition u_render_mapfile ::
  "collaborators \<Rightarrow> MapnikSource \<Rightarrow> string \<Rightarrow> MapQuery \<Rightarrow> world \<Rightarrow> (exn + ImageSource) \<times> world" where
  "u_render_mapfile cs self mf query w =
     (let start_time = clock w;
          (outcome, dt) = backend cs mf query;
          w1 = w\<lparr>clock := clock w + dt, trace := trace w @ [BackendInvoke mf query]\<rparr>;
          data = (case outcome of Inl e \<Rightarrow> None | Inr d \<Rightarrow> Some d);
          truthy = (case data of None \<Rightarrow> False | Some d \<Rightarrow> d \<noteq> []);
          size = (case data of None \<Rightarrow> None
                  | Some d \<Rightarrow> if d \<noteq> [] then Some (length d) else None);
          w2 = log_request
                 \<lparr>log_mapfile = mf, log_bbox = q_bbox query, log_srs = q_srs query,
                  log_size = q_size query,
                  log_status = (if truthy then ''200'' else ''500''),
                  log_bytes = size, log_method = ''API'',
                  log_duration = clock w1 - start_time\<rparr> w1
      in case outcome of
           Inl e \<Rightarrow> (Inl e, w2)
         | Inr d \<Rightarrow>
             (Inr \<lparr>img_data = d, img_size = q_size query,
                   img_transparent = transparent self, img_format = q_format query,
                   img_opacity = None\<rparr>, w2))"

text \<open>Modelled from the spec: \<^verbatim>\<open>run_non_blocking\<close> of \<^verbatim>\<open>mapproxy.util.async\<close> (not among
  the sources): the call is offloaded, "yet the caller still receives the result
  synchronously", so the call has the result and the effects of the function it runs.\<close>

definition render_mapfile ::
  "collaborators \<Rightarrow> MapnikSource \<Rightarrow> string \<Rightarrow> MapQuery \<Rightarrow> world \<Rightarrow> (exn + ImageSource) \<times> world" where
  "render_mapfile cs self mf query w = u_render_mapfile cs self mf query w"

definition lock_enter :: "nat \<Rightarrow> world \<Rightarrow> world" where
  "lock_enter k w = w\<lparr>held := insert k (held w), trace := trace w @ [LockAcquire k]\<rparr>"

definition lock_exit :: "nat \<Rightarrow> world \<Rightarrow> world" where
  "lock_exit k w = w\<lparr>held := held w - {k}, trace := trace w @ [LockRelease k]\<rparr>"

text \<open>The first lines of \<^verbatim>\<open>render\<close>: the map file to load, with the level substituted
  when its name has the placeholder.\<close>

definition resolve_mapfile :: "collaborators \<Rightarrow> MapnikSource \<Rightarrow> MapQuery \<Rightarrow> exn + string" where
  "resolve_mapfile cs self query =
     (if sublist ''%(webmercator_level)'' (mapfile self)
      then webmercator_mapfile cs (mapfile self) query
      else Inr (mapfile self))"

definition render ::
  "collaborators \<Rightarrow> MapnikSource \<Rightarrow> MapQuery \<Rightarrow> world \<Rightarrow> (exn + ImageSource) \<times> world" where
  "render cs self query w =
     (case resolve_mapfile cs self query of
        Inl e \<Rightarrow> (Inl e, w)
      | Inr mf \<Rightarrow>
          (case lock self of
             Some k \<Rightarrow>
               (let (r, w1) = render_mapfile cs self mf query (lock_enter k w)
                in (r, lock_exit k w1))
           | None \<Rightarrow> render_mapfile cs self mf query w))"

text \<open>\<^verbatim>\<open>SourceError(e.args[0])\<close>: subscripting an empty \<^verbatim>\<open>args\<close> raises \<open>IndexError\<close>.
  Both handlers of \<^verbatim>\<open>get_map\<close> build it; \<^verbatim>\<open>reraise_exception\<close> raises the exception it is
  given, with the traceback of the one caught.\<close>

definition source_error :: "string list \<Rightarrow> exn" where
  "source_error args = (case args of [] \<Rightarrow> IndexError | m # rest \<Rightarrow> SourceError m)"

definition get_map ::
  "collaborators \<Rightarrow> MapnikSource \<Rightarrow> MapQuery \<Rightarrow> world \<Rightarrow> (exn + ImageSource) \<times> world" where
  "get_map cs self query w =
     (if (case res_range self of None \<Rightarrow> False
          | Some r \<Rightarrow> \<not> contains r (q_bbox query) (q_size query) (q_srs query))
      then (Inl BlankImage, w)
      else if (case coverage self of None \<Rightarrow> False
               | Some c \<Rightarrow> \<not> intersects c (q_bbox query) (q_srs query))
      then (Inl BlankImage, w)
      else
        (let (r, w1) = render cs self query w
         in case r of
              Inl (RuntimeError args) \<Rightarrow> (Inl (source_error args), w1)
            | Inl (HTTPClientError args) \<Rightarrow> (Inl (source_error args), w1)
            | Inl e \<Rightarrow> (Inl e, w1)
            | Inr resp \<Rightarrow> (Inr (resp\<lparr>img_opacity := opacity self\<rparr>), w1)))"

section \<open>Observations and examples\<close>

text \<open>The entries that \<^verbatim>\<open>log_request\<close> recorded, in order.\<close>

definition request_log :: "world \<Rightarrow> log_entry list" where
  "request_log w = concat (map (\<lambda>ev. case ev of LogRequest e \<Rightarrow> [e] | _ \<Rightarrow> []) (trace w))"

text \<open>Two boxes that have a point in common.\<close>

definition boxes_intersect :: "bbox \<Rightarrow> bbox \<Rightarrow> bool" where
  "boxes_intersect a b =
     (minx a \<le> maxx b \<and> minx b \<le> maxx a \<and> miny a \<le> maxy b \<and> miny b \<le> maxy a)"

text \<open>
  A pyramid over the extent of the spherical web projection, one cell at level 0. Its
  transformation is a stand-in for the projection: linear in both axes, with the
  latitude of the extent's edge at 85.05113.
\<close>

definition mercator_srs :: srs_t where
  "mercator_srs =
     \<lparr>srs_code = 900913,
      transform_bbox_to = (\<lambda>code b n.
         (minx b * 180 / 20037508.342789244, miny b * 85.05113 / 20037508.342789244,
          maxx b * 180 / 20037508.342789244, maxy b * 85.05113 / 20037508.342789244))\<rparr>"

definition mercator_pyramid :: pyramid where
  "mercator_pyramid =
     \<lparr>origin_x = - 20037508.342789244, origin_y = - 20037508.342789244,
      cell_w = 40075016.685578488, cell_h = 40075016.685578488,
      cols0 = 1, rows0 = 1, levels = 20,
      pyr_srs = mercator_srs, pyr_tile_size = (256, 256)\<rparr>"

definition osm_layer :: layer_t where
  "osm_layer = \<lparr>layer_name = ''osm'', layer_grid = pyramid_grid mercator_pyramid,
                layer_format = ''png'', layer_md = []\<rparr>"

text \<open>A geographic pyramid, two cells at level 0, with the identity as transformation.\<close>

definition geodetic_pyramid :: pyramid where
  "geodetic_pyramid =
     \<lparr>origin_x = - 180, origin_y = - 90, cell_w = 180, cell_h = 180,
      cols0 = 2, rows0 = 1, levels = 4,
      pyr_srs = \<lparr>srs_code = 4326, transform_bbox_to = (\<lambda>code b n. b)\<rparr>,
      pyr_tile_size = (256, 256)\<rparr>"


text \<open>
  A grid whose resolutions do not nest: the cells of level 0 are squares of side 2, the
  cells of every other level are unit squares centred on the integer points, so that a
  cell on the edge of a parent meets two or four parents. Every coordinate is a cell.
\<close>

definition staggered_grid :: grid_t where
  "staggered_grid =
     \<lparr>grid_srs = \<lparr>srs_code = 4326, transform_bbox_to = (\<lambda>code b n. b)\<rparr>,
      grid_tile_size = (256, 256),
      grid_internal_tile_coord = (\<lambda>t use_profiles. Some t),
      grid_tile_bbox = (\<lambda>t. case t of (x, y, z) \<Rightarrow>
         if z = 0 then (2 * of_int x, 2 * of_int y, 2 * of_int x + 2, 2 * of_int y + 2)
         else (of_int x - 1 / 2, of_int y - 1 / 2, of_int x + 1 / 2, of_int y + 1 / 2)),
      grid_get_affected_level_tiles = (\<lambda>box level. case box of
         None \<Rightarrow> Inl TypeError
       | Some b \<Rightarrow>
           (let xs = [\<lfloor>minx b + 1 / 2\<rfloor>..\<lceil>maxx b + 1 / 2\<rceil> - 1];
                ys = [\<lfloor>miny b + 1 / 2\<rfloor>..\<lceil>maxy b + 1 / 2\<rceil> - 1]
            in Inr (b, (length xs, length ys),
                    concat (map (\<lambda>y. map (\<lambda>x. Some (x, y, level)) xs) (rev ys)))))\<rparr>"

definition staggered_layer :: layer_t where
  "staggered_layer = \<lparr>layer_name = ''staggered'', layer_grid = staggered_grid,
                      layer_format = ''png'', layer_md = []\<rparr>"



definition example_request :: "string \<Rightarrow> tile_coord \<Rightarrow> tile_request" where
  "example_request name t =
     \<lparr>req_layer = name, req_tile = t, req_format = ''kml'',
      req_environ = \<lparr>mapproxy_authorize = None\<rparr>, req_script_url = ''http://localhost/''\<rparr>"

text \<open>A source without checks and lock, a query, a world at rest, and two backends:
  one that draws and one that fails.\<close>

definition plain_source :: MapnikSource where
  "plain_source = \<lparr>mapfile = ''/etc/map.xml'', coverage = None, res_range = None,
                   lock = None, opacity = None, transparent = Some True\<rparr>"

definition world_query :: MapQuery where
  "world_query = \<lparr>q_bbox = (- 180, - 90, 180, 90), q_size = (512, 256),
                  q_srs = ''EPSG:4326'', q_format = ''png''\<rparr>"

definition idle_world :: world where
  "idle_world = \<lparr>clock = 100, held = {}, trace = []\<rparr>"

definition drawing :: collaborators where
  "drawing = \<lparr>backend = (\<lambda>mf q. (Inr ''PNG-bytes'', 2)),
              webmercator_mapfile = (\<lambda>mf q. Inr mf)\<rparr>"

definition failing :: collaborators where
  "failing = \<lparr>backend = (\<lambda>mf q. (Inl (RuntimeError [''font not found'']), 2)),
              webmercator_mapfile = (\<lambda>mf q. Inr mf)\<rparr>"

section \<open>Authorization: theorems\<close>

text \<open>
  C6. With an authorization callback in the environment, the request proceeds when the
  result says \<open>full\<close>; when it says \<open>partial\<close> it proceeds exactly if the layer's entry
  has \<open>tile\<close> equal to true; in every other case (\<open>none\<close> or any other word, no entry
  for the layer, no \<open>tile\<close> flag in the entry, a false flag) the call fails with
  \<open>RequestError('forbidden', status=403)\<close>.
\<close>

theorem authorize_tile_layer_decision:
  assumes "mapproxy_authorize env = Some f"
    and "f ''kml'' [lname] = r"
  shows "authorize_tile_layer lname env =
           (if authorized r = ''full''
               \<or> (authorized r = ''partial''
                   \<and> (\<exists>d. layers r lname = Some d \<and> d ''tile'' = Some True))
            then Inr ()
            else Inl (RequestError ''forbidden'' (Some 403)))"
  using assms
  by (auto simp: authorize_tile_layer_def dict_get_def Let_def split: option.splits)

theorem authorize_tile_layer_decision_witness:
  "authorize_tile_layer ''osm''
     \<lparr>mapproxy_authorize = Some (\<lambda>s ls. \<lparr>authorized = ''full'', layers = Map.empty\<rparr>)\<rparr> = Inr ()
   \<and> authorize_tile_layer ''osm''
     \<lparr>mapproxy_authorize = Some (\<lambda>s ls. \<lparr>authorized = ''partial'',
         layers = [''osm'' \<mapsto> [''tile'' \<mapsto> True]]\<rparr>)\<rparr> = Inr ()
   \<and> authorize_tile_layer ''osm''
     \<lparr>mapproxy_authorize = Some (\<lambda>s ls. \<lparr>authorized = ''partial'',
         layers = [''osm'' \<mapsto> [''map'' \<mapsto> True]]\<rparr>)\<rparr>
       = Inl (RequestError ''forbidden'' (Some 403))
   \<and> authorize_tile_layer ''osm''
     \<lparr>mapproxy_authorize = Some (\<lambda>s ls. \<lparr>authorized = ''partial'',
         layers = [''roads'' \<mapsto> [''tile'' \<mapsto> True]]\<rparr>)\<rparr>
       = Inl (RequestError ''forbidden'' (Some 403))
   \<and> authorize_tile_layer ''osm''
     \<lparr>mapproxy_authorize = Some (\<lambda>s ls. \<lparr>authorized = ''none'', layers = Map.empty\<rparr>)\<rparr>
       = Inl (RequestError ''forbidden'' (Some 403))"
proof -
  let ?full = "\<lambda>(s::string) (ls::string list). \<lparr>authorized = ''full'', layers = Map.empty\<rparr>"
  let ?tile = "\<lambda>(s::string) (ls::string list). \<lparr>authorized = ''partial'',
         layers = [''osm'' \<mapsto> [''tile'' \<mapsto> True]]\<rparr>"
  let ?map = "\<lambda>(s::string) (ls::string list). \<lparr>authorized = ''partial'',
         layers = [''osm'' \<mapsto> [''map'' \<mapsto> True]]\<rparr>"
  let ?roads = "\<lambda>(s::string) (ls::string list). \<lparr>authorized = ''partial'',
         layers = [''roads'' \<mapsto> [''tile'' \<mapsto> True]]\<rparr>"
  let ?none = "\<lambda>(s::string) (ls::string list). \<lparr>authorized = ''none'', layers = Map.empty\<rparr>"
  have 1: "authorize_tile_layer ''osm'' \<lparr>mapproxy_authorize = Some ?full\<rparr> = Inr ()"
    using authorize_tile_layer_decision
      [of "\<lparr>mapproxy_authorize = Some ?full\<rparr>" ?full "''osm''" "?full ''kml'' [''osm'']"]
    by simp
  have 2: "authorize_tile_layer ''osm'' \<lparr>mapproxy_authorize = Some ?tile\<rparr> = Inr ()"
    using authorize_tile_layer_decision
      [of "\<lparr>mapproxy_authorize = Some ?tile\<rparr>" ?tile "''osm''" "?tile ''kml'' [''osm'']"]
    by simp
  have 3: "authorize_tile_layer ''osm'' \<lparr>mapproxy_authorize = Some ?map\<rparr>
             = Inl (RequestError ''forbidden'' (Some 403))"
    using authorize_tile_layer_decision
      [of "\<lparr>mapproxy_authorize = Some ?map\<rparr>" ?map "''osm''" "?map ''kml'' [''osm'']"]
    by simp
  have 4: "authorize_tile_layer ''osm'' \<lparr>mapproxy_authorize = Some ?roads\<rparr>
             = Inl (RequestError ''forbidden'' (Some 403))"
    using authorize_tile_layer_decision
      [of "\<lparr>mapproxy_authorize = Some ?roads\<rparr>" ?roads "''osm''" "?roads ''kml'' [''osm'']"]
    by simp
  have 5: "authorize_tile_layer ''osm'' \<lparr>mapproxy_authorize = Some ?none\<rparr>
             = Inl (RequestError ''forbidden'' (Some 403))"
    using authorize_tile_layer_decision
      [of "\<lparr>mapproxy_authorize = Some ?none\<rparr>" ?none "''osm''" "?none ''kml'' [''osm'']"]
    by simp
  from 1 2 3 4 5 show ?thesis by blast
qed

text \<open>
  C10. Without a \<^verbatim>\<open>'mapproxy.authorize'\<close> entry in the environment the call returns
  normally, whatever the layer; and whenever the call raises, a callback is present in the
  environment (and what is raised is the 403 \<open>forbidden\<close> error).
\<close>

theorem authorize_tile_layer_no_callback:
  "(mapproxy_authorize env = None \<longrightarrow> authorize_tile_layer lname env = Inr ())
   \<and> (authorize_tile_layer lname env = Inl e \<longrightarrow>
        mapproxy_authorize env \<noteq> None \<and> e = RequestError ''forbidden'' (Some 403))"
  by (auto simp: authorize_tile_layer_def Let_def split: option.splits if_splits)

theorem authorize_tile_layer_no_callback_witness:
  "authorize_tile_layer ''osm'' \<lparr>mapproxy_authorize = None\<rparr> = Inr ()
   \<and> authorize_tile_layer ''osm''
       \<lparr>mapproxy_authorize = Some (\<lambda>s ls. \<lparr>authorized = ''none'', layers = Map.empty\<rparr>)\<rparr>
       = Inl (RequestError ''forbidden'' (Some 403))
   \<and> mapproxy_authorize
       \<lparr>mapproxy_authorize = Some (\<lambda>s ls. \<lparr>authorized = ''none'', layers = Map.empty\<rparr>)\<rparr> \<noteq> None"
proof -
  have a: "authorize_tile_layer ''osm'' \<lparr>mapproxy_authorize = None\<rparr> = Inr ()"
    using authorize_tile_layer_no_callback [of "\<lparr>mapproxy_authorize = None\<rparr>" "''osm''"]
    by simp
  have b: "authorize_tile_layer ''osm''
       \<lparr>mapproxy_authorize = Some (\<lambda>s ls. \<lparr>authorized = ''none'', layers = Map.empty\<rparr>)\<rparr>
       = Inl (RequestError ''forbidden'' (Some 403))"
    by (simp add: authorize_tile_layer_def)
  show ?thesis
    using a b authorize_tile_layer_no_callback
      [of "\<lparr>mapproxy_authorize = Some (\<lambda>s ls. \<lparr>authorized = ''none'', layers = Map.empty\<rparr>)\<rparr>"
          "''osm''" "RequestError ''forbidden'' (Some 403)"]
    by simp
qed

section \<open>Rendering: theorems\<close>

lemma resolve_plain:
  "resolve_mapfile cs (plain_source\<lparr>lock := k\<rparr>) q = Inr ''/etc/map.xml''"
proof -
  have "\<not> sublist ''%(webmercator_level)'' ''/etc/map.xml''" by code_simp
  then show ?thesis by (simp add: resolve_mapfile_def plain_source_def)
qed

lemma resolve_plain_source:
  "resolve_mapfile cs plain_source q = Inr ''/etc/map.xml''"
  using resolve_plain [of cs None q] by (simp add: plain_source_def)

text \<open>
  C4. A configured resolution range that does not contain the query's bbox, size and
  reference makes \<open>get_map\<close> raise \<open>BlankImage\<close>, and so does a configured coverage that
  does not intersect the query's bbox; in both cases the world is returned as it was, so
  the backend was not invoked and nothing was logged. \<open>BlankImage\<close> is the one exception
  the code raises for both signals, and it is not the \<open>SourceError\<close> of a failed render.
\<close>

theorem get_map_blank:
  "((\<exists>r. res_range self = Some r \<and> \<not> contains r (q_bbox query) (q_size query) (q_srs query))
      \<longrightarrow> get_map cs self query w = (Inl BlankImage, w))
   \<and> ((\<exists>c. coverage self = Some c \<and> \<not> intersects c (q_bbox query) (q_srs query))
      \<longrightarrow> get_map cs self query w = (Inl BlankImage, w))
   \<and> (\<forall>m. BlankImage \<noteq> SourceError m)"
  by (auto simp: get_map_def)

theorem get_map_blank_witness:
  "get_map drawing (plain_source\<lparr>res_range := Some \<lparr>contains = (\<lambda>b s r. False)\<rparr>\<rparr>)
      world_query idle_world = (Inl BlankImage, idle_world)
   \<and> get_map drawing
       (plain_source\<lparr>coverage := Some \<lparr>cov_bbox = (0, 0, 1, 1), cov_srs = ''EPSG:4326'',
                                        intersects = (\<lambda>b r. False)\<rparr>\<rparr>)
      world_query idle_world = (Inl BlankImage, idle_world)
   \<and> trace idle_world = []"
  using get_map_blank
    [of "plain_source\<lparr>res_range := Some \<lparr>contains = (\<lambda>b s r. False)\<rparr>\<rparr>" world_query drawing idle_world]
    get_map_blank
    [of "plain_source\<lparr>coverage := Some \<lparr>cov_bbox = (0, 0, 1, 1), cov_srs = ''EPSG:4326'',
                                        intersects = (\<lambda>b r. False)\<rparr>\<rparr>" world_query drawing idle_world]
  by (simp add: plain_source_def idle_world_def)

text \<open>What one call of \<open>render\<close> returns and logs, for any outcome of the backend.\<close>

lemma render_result:
  assumes "resolve_mapfile cs self query = Inr mf"
    and "backend cs mf query = (outcome, dt)"
  shows "fst (render cs self query w)
           = (case outcome of Inl e \<Rightarrow> Inl e
              | Inr d \<Rightarrow> Inr \<lparr>img_data = d, img_size = q_size query,
                   img_transparent = transparent self, img_format = q_format query,
                   img_opacity = None\<rparr>)"
    and "request_log (snd (render cs self query w))
           = request_log w @
             [\<lparr>log_mapfile = mf, log_bbox = q_bbox query, log_srs = q_srs query,
               log_size = q_size query,
               log_status = (case outcome of Inr (c # d) \<Rightarrow> ''200'' | _ \<Rightarrow> ''500''),
               log_bytes = (case outcome of Inr (c # d) \<Rightarrow> Some (length (c # d)) | _ \<Rightarrow> None),
               log_method = ''API'', log_duration = dt\<rparr>]"
  using assms
  by (auto simp: render_def render_mapfile_def u_render_mapfile_def lock_enter_def lock_exit_def
      log_request_def request_log_def Let_def
      split: prod.splits sum.splits option.splits list.splits)

lemma get_map_applicable:
  assumes "\<forall>r. res_range self = Some r \<longrightarrow> contains r (q_bbox query) (q_size query) (q_srs query)"
    and "\<forall>c. coverage self = Some c \<longrightarrow> intersects c (q_bbox query) (q_srs query)"
  shows "get_map cs self query w =
        (let (r, w1) = render cs self query w
         in case r of
              Inl (RuntimeError args) \<Rightarrow> (Inl (source_error args), w1)
            | Inl (HTTPClientError args) \<Rightarrow> (Inl (source_error args), w1)
            | Inl e \<Rightarrow> (Inl e, w1)
            | Inr resp \<Rightarrow> (Inr (resp\<lparr>img_opacity := opacity self\<rparr>), w1))"
  using assms by (auto simp: get_map_def split: option.splits)

text \<open>
  C5. For a query that passes the two checks:
  a \<open>RuntimeError\<close> or an \<open>HTTPClientError\<close> that the backend raises with its message \<open>m\<close>
  as the first of its \<open>args\<close> reaches the caller as \<open>SourceError m\<close>, and an
  \<open>HTTPClientError\<close> with message \<open>m\<close> raised while the map file is resolved reaches the
  caller as \<open>SourceError m\<close> too. Whatever the backend raises, the call raises, and
  by then the log has gained one entry with status \<open>500\<close>, no byte size and the time the
  backend took. When the backend returns the bytes of an image (an encoded image is not
  empty), the caller gets the image, with the source's opacity, and by then the log has
  gained one entry with status \<open>200\<close>, the number of bytes and the time the backend took.
\<close>

theorem get_map_faults_logged:
  assumes "\<forall>r. res_range self = Some r \<longrightarrow> contains r (q_bbox query) (q_size query) (q_srs query)"
    and "\<forall>c. coverage self = Some c \<longrightarrow> intersects c (q_bbox query) (q_srs query)"
  shows "(resolve_mapfile cs self query = Inl (HTTPClientError (m # rest)) \<longrightarrow>
            fst (get_map cs self query w) = Inl (SourceError m))
   \<and> (resolve_mapfile cs self query = Inr mf \<longrightarrow>
        (backend cs mf query = (Inl (RuntimeError (m # rest)), dt)
           \<or> backend cs mf query = (Inl (HTTPClientError (m # rest)), dt) \<longrightarrow>
          fst (get_map cs self query w) = Inl (SourceError m)
          \<and> request_log (snd (get_map cs self query w)) = request_log w @
             [\<lparr>log_mapfile = mf, log_bbox = q_bbox query, log_srs = q_srs query,
               log_size = q_size query, log_status = ''500'', log_bytes = None,
               log_method = ''API'', log_duration = dt\<rparr>])
      \<and> (\<forall>err. backend cs mf query = (Inl err, dt) \<longrightarrow>
          (\<exists>e. fst (get_map cs self query w) = Inl e)
          \<and> request_log (snd (get_map cs self query w)) = request_log w @
             [\<lparr>log_mapfile = mf, log_bbox = q_bbox query, log_srs = q_srs query,
               log_size = q_size query, log_status = ''500'', log_bytes = None,
               log_method = ''API'', log_duration = dt\<rparr>])
      \<and> (d \<noteq> [] \<and> backend cs mf query = (Inr d, dt) \<longrightarrow>
          fst (get_map cs self query w)
            = Inr \<lparr>img_data = d, img_size = q_size query,
                   img_transparent = transparent self, img_format = q_format query,
                   img_opacity = opacity self\<rparr>
          \<and> request_log (snd (get_map cs self query w)) = request_log w @
             [\<lparr>log_mapfile = mf, log_bbox = q_bbox query, log_srs = q_srs query,
               log_size = q_size query, log_status = ''200'', log_bytes = Some (length d),
               log_method = ''API'', log_duration = dt\<rparr>]))"
proof -
  note pass = get_map_applicable [OF assms, of cs w]
  have a: "fst (get_map cs self query w) = Inl (SourceError m)"
    if "resolve_mapfile cs self query = Inl (HTTPClientError (m # rest))"
    using that by (simp add: pass render_def source_error_def)
  have lg: "request_log (snd (get_map cs self query w)) = request_log (snd (render cs self query w))"
    by (simp add: pass split: prod.splits sum.splits exn.splits)
  have b: "fst (get_map cs self query w) = Inl (SourceError m)
          \<and> request_log (snd (get_map cs self query w)) = request_log w @
             [\<lparr>log_mapfile = mf, log_bbox = q_bbox query, log_srs = q_srs query,
               log_size = q_size query, log_status = ''500'', log_bytes = None,
               log_method = ''API'', log_duration = dt\<rparr>]"
    if r: "resolve_mapfile cs self query = Inr mf"
      and bk: "backend cs mf query = (Inl (RuntimeError (m # rest)), dt)
           \<or> backend cs mf query = (Inl (HTTPClientError (m # rest)), dt)"
  proof -
    from bk obtain err where e: "backend cs mf query = (Inl err, dt)"
      and err: "err = RuntimeError (m # rest) \<or> err = HTTPClientError (m # rest)" by blast
    have "fst (render cs self query w) = Inl err"
      using render_result(1) [OF r e, of w] by simp
    then have 1: "fst (get_map cs self query w) = Inl (SourceError m)"
      using err by (auto simp: pass source_error_def split: prod.splits)
    have 2: "request_log (snd (render cs self query w)) = request_log w @
             [\<lparr>log_mapfile = mf, log_bbox = q_bbox query, log_srs = q_srs query,
               log_size = q_size query, log_status = ''500'', log_bytes = None,
               log_method = ''API'', log_duration = dt\<rparr>]"
      using render_result(2) [OF r e, of w] by simp
    from 1 2 lg show ?thesis by simp
  qed
  have b': "(\<exists>e. fst (get_map cs self query w) = Inl e)
          \<and> request_log (snd (get_map cs self query w)) = request_log w @
             [\<lparr>log_mapfile = mf, log_bbox = q_bbox query, log_srs = q_srs query,
               log_size = q_size query, log_status = ''500'', log_bytes = None,
               log_method = ''API'', log_duration = dt\<rparr>]"
    if r: "resolve_mapfile cs self query = Inr mf"
      and e: "backend cs mf query = (Inl err, dt)" for err
  proof -
    have "fst (render cs self query w) = Inl err"
      using render_result(1) [OF r e, of w] by simp
    then have 1: "\<exists>e. fst (get_map cs self query w) = Inl e"
      by (cases err) (auto simp: pass split: prod.splits)
    have 2: "request_log (snd (render cs self query w)) = request_log w @
             [\<lparr>log_mapfile = mf, log_bbox = q_bbox query, log_srs = q_srs query,
               log_size = q_size query, log_status = ''500'', log_bytes = None,
               log_method = ''API'', log_duration = dt\<rparr>]"
      using render_result(2) [OF r e, of w] by simp
    from 1 2 lg show ?thesis by simp
  qed
  have c: "fst (get_map cs self query w)
            = Inr \<lparr>img_data = d, img_size = q_size query,
                   img_transparent = transparent self, img_format = q_format query,
                   img_opacity = opacity self\<rparr>
          \<and> request_log (snd (get_map cs self query w)) = request_log w @
             [\<lparr>log_mapfile = mf, log_bbox = q_bbox query, log_srs = q_srs query,
               log_size = q_size query, log_status = ''200'', log_bytes = Some (length d),
               log_method = ''API'', log_duration = dt\<rparr>]"
    if r: "resolve_mapfile cs self query = Inr mf"
      and d: "d \<noteq> []" and bk: "backend cs mf query = (Inr d, dt)"
  proof -
    from d obtain c ds where cd: "d = c # ds" by (cases d) auto
    have "fst (render cs self query w) = Inr \<lparr>img_data = d, img_size = q_size query,
                   img_transparent = transparent self, img_format = q_format query,
                   img_opacity = None\<rparr>"
      using render_result(1) [OF r bk, of w] by simp
    then have 1: "fst (get_map cs self query w)
            = Inr \<lparr>img_data = d, img_size = q_size query,
                   img_transparent = transparent self, img_format = q_format query,
                   img_opacity = opacity self\<rparr>"
      by (auto simp: pass split: prod.splits)
    have 2: "request_log (snd (render cs self query w)) = request_log w @
             [\<lparr>log_mapfile = mf, log_bbox = q_bbox query, log_srs = q_srs query,
               log_size = q_size query, log_status = ''200'', log_bytes = Some (length d),
               log_method = ''API'', log_duration = dt\<rparr>]"
      using render_result(2) [OF r bk, of w] by (simp add: cd)
    from 1 2 lg show ?thesis by simp
  qed
  from a b b' c show ?thesis by blast
qed

theorem get_map_faults_logged_witness:
  "fst (get_map failing plain_source world_query idle_world) = Inl (SourceError ''font not found'')
   \<and> request_log (snd (get_map failing plain_source world_query idle_world))
       = [\<lparr>log_mapfile = ''/etc/map.xml'', log_bbox = (- 180, - 90, 180, 90),
           log_srs = ''EPSG:4326'', log_size = (512, 256), log_status = ''500'',
           log_bytes = None, log_method = ''API'', log_duration = 2\<rparr>]
   \<and> fst (get_map drawing plain_source world_query idle_world)
       = Inr \<lparr>img_data = ''PNG-bytes'', img_size = (512, 256), img_transparent = Some True,
              img_format = ''png'', img_opacity = None\<rparr>
   \<and> request_log (snd (get_map drawing plain_source world_query idle_world))
       = [\<lparr>log_mapfile = ''/etc/map.xml'', log_bbox = (- 180, - 90, 180, 90),
           log_srs = ''EPSG:4326'', log_size = (512, 256), log_status = ''200'',
           log_bytes = Some 9, log_method = ''API'', log_duration = 2\<rparr>]"
proof -
  have h1: "\<forall>r. res_range plain_source = Some r \<longrightarrow>
              contains r (q_bbox world_query) (q_size world_query) (q_srs world_query)"
    and h2: "\<forall>c. coverage plain_source = Some c \<longrightarrow>
              intersects c (q_bbox world_query) (q_srs world_query)"
    by (simp_all add: plain_source_def)
  have f: "backend failing ''/etc/map.xml'' world_query
             = (Inl (RuntimeError (''font not found'' # [])), 2)"
    by (simp add: failing_def)
  have g: "backend drawing ''/etc/map.xml'' world_query = (Inr ''PNG-bytes'', 2)"
    by (simp add: drawing_def)
  have l: "request_log idle_world = []"
    by (simp add: request_log_def idle_world_def)
  have q: "q_bbox world_query = (- 180, - 90, 180, 90)" "q_srs world_query = ''EPSG:4326''"
    "q_size world_query = (512, 256)" "q_format world_query = ''png''"
    by (simp_all add: world_query_def)
  have s: "transparent plain_source = Some True" "opacity plain_source = None"
    by (simp_all add: plain_source_def)
  show ?thesis
    using get_map_faults_logged [OF h1 h2, where cs = failing and m = "''font not found''"
        and rest = "[]" and mf = "''/etc/map.xml''" and dt = 2 and d = "[]" and w = idle_world]
      get_map_faults_logged [OF h1 h2, where cs = drawing and m = "''x''"
        and rest = "[]" and mf = "''/etc/map.xml''" and dt = 2 and d = "''PNG-bytes''"
        and w = idle_world]
      resolve_plain_source [of failing world_query] resolve_plain_source [of drawing world_query]
      f g l q s
    by simp
qed

text \<open>
  C7. With a lock \<open>k\<close> configured and free when the call starts: the lock is not held when
  \<open>render\<close> has returned; if resolving the map file raises, that exception is what
  \<open>render\<close> raises and nothing else has happened; otherwise exactly four things have
  happened, in this order: the lock was acquired, the backend was invoked, the request was
  logged, the lock was released, and an exception of the backend is what \<open>render\<close> raises.
  Without a lock (\<open>None\<close>, the default of the constructor) the backend is invoked and
  the request logged with no lock event, and the held locks are unchanged.
\<close>

theorem render_lock_scoped:
  "(lock self = Some k \<and> k \<notin> held w \<longrightarrow>
      k \<notin> held (snd (render cs self query w))
      \<and> (\<forall>e. resolve_mapfile cs self query = Inl e \<longrightarrow> render cs self query w = (Inl e, w))
      \<and> (\<forall>mf. resolve_mapfile cs self query = Inr mf \<longrightarrow>
            (\<exists>e. trace (snd (render cs self query w))
                  = trace w @ [LockAcquire k, BackendInvoke mf query, LogRequest e, LockRelease k])
            \<and> (\<forall>err dt. backend cs mf query = (Inl err, dt) \<longrightarrow>
                  fst (render cs self query w) = Inl err)))
   \<and> (lock self = None \<longrightarrow>
        held (snd (render cs self query w)) = held w
        \<and> (\<forall>mf. resolve_mapfile cs self query = Inr mf \<longrightarrow>
            (\<exists>e. trace (snd (render cs self query w))
                  = trace w @ [BackendInvoke mf query, LogRequest e])))"
  by (auto simp: render_def render_mapfile_def u_render_mapfile_def lock_enter_def lock_exit_def
      log_request_def Let_def split: prod.splits sum.splits)

theorem render_lock_scoped_witness:
  "lock (plain_source\<lparr>lock := Some 7\<rparr>) = Some 7 \<and> 7 \<notin> held idle_world
   \<and> 7 \<notin> held (snd (render failing (plain_source\<lparr>lock := Some 7\<rparr>) world_query idle_world))
   \<and> (\<exists>e. trace (snd (render failing (plain_source\<lparr>lock := Some 7\<rparr>) world_query idle_world))
           = [LockAcquire 7, BackendInvoke ''/etc/map.xml'' world_query, LogRequest e,
              LockRelease 7])
   \<and> fst (render failing (plain_source\<lparr>lock := Some 7\<rparr>) world_query idle_world)
       = Inl (RuntimeError [''font not found''])
   \<and> lock plain_source = None
   \<and> (\<exists>e. trace (snd (render drawing plain_source world_query idle_world))
           = [BackendInvoke ''/etc/map.xml'' world_query, LogRequest e])"
proof -
  have l: "lock (plain_source\<lparr>lock := Some 7\<rparr>) = Some 7 \<and> 7 \<notin> held idle_world"
    by (simp add: idle_world_def)
  have b: "backend failing ''/etc/map.xml'' world_query = (Inl (RuntimeError [''font not found'']), 2)"
    by (simp add: failing_def)
  have n: "lock plain_source = None" by (simp add: plain_source_def)
  have t: "trace idle_world = []" by (simp add: idle_world_def)
  show ?thesis
    using l b n t resolve_plain [of failing "Some 7" world_query]
      resolve_plain_source [of drawing world_query]
      render_lock_scoped [of "plain_source\<lparr>lock := Some 7\<rparr>" 7 idle_world failing world_query]
      render_lock_scoped [of plain_source 7 idle_world drawing world_query]
    by simp
qed

section \<open>Bounding boxes and subdivision: theorems\<close>

lemmas bbox_sel = minx_def miny_def maxx_def maxy_def set_miny_def set_maxy_def

text \<open>
  C2. For a grid in EPSG:900913 the transformed box keeps its longitudes, its bottom
  latitude is exactly \<open>-90\<close> when the source's \<open>minY\<close> is less than 0.1 away from
  \<open>-20037508.342789244\<close> and the transformed one otherwise, and its top latitude is
  exactly \<open>90\<close> when the source's \<open>maxY\<close> is less than 0.1 away from
  \<open>20037508.342789244\<close> and the transformed one otherwise; each edge is decided alone.
  For a grid in any other reference the transformed box is returned as it is.
\<close>

theorem tile_bbox_to_wgs_clamp:
  "(srs_is (grid_srs grid) 900913 \<longrightarrow>
      minx (u_tile_bbox_to_wgs src_bbox grid)
        = minx (transform_bbox_to (grid_srs grid) 4326 src_bbox 4)
      \<and> maxx (u_tile_bbox_to_wgs src_bbox grid)
        = maxx (transform_bbox_to (grid_srs grid) 4326 src_bbox 4)
      \<and> miny (u_tile_bbox_to_wgs src_bbox grid)
        = (if \<bar>miny src_bbox - (- 20037508.342789244)\<bar> < 0.1 then - 90.0
           else miny (transform_bbox_to (grid_srs grid) 4326 src_bbox 4))
      \<and> maxy (u_tile_bbox_to_wgs src_bbox grid)
        = (if \<bar>maxy src_bbox - 20037508.342789244\<bar> < 0.1 then 90.0
           else maxy (transform_bbox_to (grid_srs grid) 4326 src_bbox 4)))
   \<and> (\<not> srs_is (grid_srs grid) 900913 \<longrightarrow>
        u_tile_bbox_to_wgs src_bbox grid = transform_bbox_to (grid_srs grid) 4326 src_bbox 4)"
  by (simp add: u_tile_bbox_to_wgs_def Let_def bbox_sel)

theorem tile_bbox_to_wgs_clamp_witness:
  "srs_is (grid_srs (pyramid_grid mercator_pyramid)) 900913
   \<and> miny (u_tile_bbox_to_wgs (- 20037508.342789244, - 20037508.342789244, 0, 0)
             (pyramid_grid mercator_pyramid)) = - 90
   \<and> maxy (u_tile_bbox_to_wgs (- 20037508.342789244, - 20037508.342789244, 0, 0)
             (pyramid_grid mercator_pyramid)) = 0
   \<and> miny (u_tile_bbox_to_wgs (0, 0, 20037508.342789244, 20037508.3)
             (pyramid_grid mercator_pyramid)) = 0
   \<and> maxy (u_tile_bbox_to_wgs (0, 0, 20037508.342789244, 20037508.3)
             (pyramid_grid mercator_pyramid)) = 90
   \<and> maxy (u_tile_bbox_to_wgs (0, 0, 20037508.342789244, 20037508.2)
             (pyramid_grid mercator_pyramid)) = 85.05113 * 20037508.2 / 20037508.342789244
   \<and> \<not> srs_is (grid_srs (pyramid_grid geodetic_pyramid)) 900913
   \<and> u_tile_bbox_to_wgs (0, 0, 20037508.342789244, 20037508.342789244)
        (pyramid_grid geodetic_pyramid) = (0, 0, 20037508.342789244, 20037508.342789244)"
proof -
  let ?g = "pyramid_grid mercator_pyramid"
  have g: "srs_is (grid_srs ?g) 900913"
    "transform_bbox_to (grid_srs ?g) = (\<lambda>code b n.
         (minx b * 180 / 20037508.342789244, miny b * 85.05113 / 20037508.342789244,
          maxx b * 180 / 20037508.342789244, maxy b * 85.05113 / 20037508.342789244))"
    by (simp_all add: pyramid_grid_def mercator_pyramid_def mercator_srs_def srs_is_def)
  have h: "\<not> srs_is (grid_srs (pyramid_grid geodetic_pyramid)) 900913"
    "transform_bbox_to (grid_srs (pyramid_grid geodetic_pyramid)) = (\<lambda>code b n. b)"
    by (simp_all add: pyramid_grid_def geodetic_pyramid_def srs_is_def)
  show ?thesis
    using g h
      tile_bbox_to_wgs_clamp [of ?g "(- 20037508.342789244, - 20037508.342789244, 0, 0)"]
      tile_bbox_to_wgs_clamp [of ?g "(0, 0, 20037508.342789244, 20037508.3)"]
      tile_bbox_to_wgs_clamp [of ?g "(0, 0, 20037508.342789244, 20037508.2)"]
      tile_bbox_to_wgs_clamp [of "pyramid_grid geodetic_pyramid"
        "(0, 0, 20037508.342789244, 20037508.342789244)"]
    by (simp add: bbox_sel)
qed

text \<open>
  C3 as the spec states it fails: for a tile that is no cell of the grid the KML request
  does not complete with an empty list of children, it raises a \<open>RequestError\<close>.
\<close>

theorem kml_outside_counterexample:
  "kml [''osm'' \<mapsto> osm_layer] (example_request ''osm'' (5, 5, 0))
     = Inl (RequestError ''The requested tile is outside the bounding box of the tile map.'' None)"
  by (simp add: kml_def layer_def osm_layer_def example_request_def authorize_tile_layer_def
      u_tile_wgs_bbox_def u_tile_bbox_def pyramid_grid_def pyr_internal_tile_coord_def
      pyr_valid_def mercator_pyramid_def tile_level_def)

text \<open>
  C3, as the code has it. When the layer of the request exists and the request is
  authorized, a requested tile that is no cell of the layer's grid makes \<open>kml\<close> raise
  \<open>RequestError\<close> with the message that the tile is outside the bounding box of the tile
  map. What is skipped without an error is a candidate child: an entry \<^verbatim>\<open>None\<close> among the
  candidates, and a candidate that is no cell of the grid.
\<close>

theorem kml_outside_rejected:
  assumes "layer ls map_request = Inr l"
    and "authorize_tile_layer (layer_name l) (req_environ map_request) = Inr ()"
    and "u_tile_bbox (req_tile map_request) (layer_grid l) = None"
  shows "kml ls map_request
     = Inl (RequestError ''The requested tile is outside the bounding box of the tile map.'' None)
   \<and> subtiles_loop pbox grid (None # tiles) = subtiles_loop pbox grid tiles
   \<and> (u_tile_bbox c grid = None \<longrightarrow>
        subtiles_loop pbox grid (Some c # tiles) = subtiles_loop pbox grid tiles)"
  using assms by (simp add: kml_def u_tile_wgs_bbox_def)

theorem kml_outside_rejected_witness:
  "layer [''osm'' \<mapsto> osm_layer] (example_request ''osm'' (2, 0, 1)) = Inr osm_layer
   \<and> authorize_tile_layer (layer_name osm_layer)
        (req_environ (example_request ''osm'' (2, 0, 1))) = Inr ()
   \<and> u_tile_bbox (req_tile (example_request ''osm'' (2, 0, 1))) (layer_grid osm_layer) = None
   \<and> kml [''osm'' \<mapsto> osm_layer] (example_request ''osm'' (2, 0, 1))
       = Inl (RequestError ''The requested tile is outside the bounding box of the tile map.'' None)
   \<and> u_tile_bbox (0, 4, 2) (layer_grid osm_layer) = None
   \<and> subtiles_loop None (layer_grid osm_layer) [None, Some (0, 4, 2)] = Inr []"
proof -
  have 1: "layer [''osm'' \<mapsto> osm_layer] (example_request ''osm'' (2, 0, 1)) = Inr osm_layer"
    by (simp add: layer_def example_request_def)
  have 2: "authorize_tile_layer (layer_name osm_layer)
        (req_environ (example_request ''osm'' (2, 0, 1))) = Inr ()"
    by (simp add: authorize_tile_layer_def example_request_def)
  have 3: "u_tile_bbox (req_tile (example_request ''osm'' (2, 0, 1))) (layer_grid osm_layer) = None"
    by (simp add: u_tile_bbox_def example_request_def osm_layer_def pyramid_grid_def
        pyr_internal_tile_coord_def pyr_valid_def mercator_pyramid_def)
  have 4: "u_tile_bbox (0, 4, 2) (layer_grid osm_layer) = None"
    by (simp add: u_tile_bbox_def osm_layer_def pyramid_grid_def
        pyr_internal_tile_coord_def pyr_valid_def mercator_pyramid_def)
  show ?thesis
    using 1 2 3 4
      kml_outside_rejected [OF 1 2 3, of None "layer_grid osm_layer" "[Some (0, 4, 2)]" "(0, 4, 2)"]
      kml_outside_rejected [OF 1 2 3, of None "layer_grid osm_layer" "[]" "(0, 4, 2)"]
    by simp
qed

text \<open>The loop of \<^verbatim>\<open>_get_subtiles\<close> for a parent with a box: it raises nothing, and the
  coordinates it keeps are the candidates with a box whose lower-left corner is not below
  and not left of the parent's.\<close>

lemma subtiles_loop_kept:
  "\<exists>subs. subtiles_loop (Some pb) g tiles = Inr subs
     \<and> (\<forall>c. c \<in> coord ` set subs \<longleftrightarrow>
           Some c \<in> set tiles
           \<and> (\<exists>sb. u_tile_bbox c g = Some sb \<and> minx pb \<le> minx sb \<and> miny pb \<le> miny sb))"
proof (induction tiles)
  case Nil
  show ?case by simp
next
  case (Cons t tiles)
  then obtain subs where s: "subtiles_loop (Some pb) g tiles = Inr subs"
    and m: "\<And>c. c \<in> coord ` set subs \<longleftrightarrow>
           Some c \<in> set tiles
           \<and> (\<exists>sb. u_tile_bbox c g = Some sb \<and> minx pb \<le> minx sb \<and> miny pb \<le> miny sb)"
    by blast
  show ?case
  proof (cases t)
    case None
    then have "subtiles_loop (Some pb) g (t # tiles) = Inr subs" using s by simp
    moreover have "\<forall>c. c \<in> coord ` set subs \<longleftrightarrow>
           Some c \<in> set (t # tiles)
           \<and> (\<exists>sb. u_tile_bbox c g = Some sb \<and> minx pb \<le> minx sb \<and> miny pb \<le> miny sb)"
      unfolding list.set insert_iff using None m by blast
    ultimately show ?thesis by blast
  next
    case (Some c0)
    have inj: "\<And>c. Some c = t \<longleftrightarrow> c = c0" using Some by auto
    show ?thesis
    proof (cases "\<exists>sb. u_tile_bbox c0 g = Some sb \<and> minx pb \<le> minx sb \<and> miny pb \<le> miny sb")
      case True
      then obtain sb0 where b: "u_tile_bbox c0 g = Some sb0"
        and k: "minx pb \<le> minx sb0 \<and> miny pb \<le> miny sb0" by blast
      let ?x = "\<lparr>coord = c0, bbox = u_tile_bbox_to_wgs sb0 g\<rparr>"
      have cc: "coord ?x = c0" by simp
      from Some b k s
      have "subtiles_loop (Some pb) g (t # tiles) = Inr (?x # subs)"
        by simp
      moreover have "\<forall>c. c \<in> coord ` set (?x # subs) \<longleftrightarrow>
           Some c \<in> set (t # tiles)
           \<and> (\<exists>sb. u_tile_bbox c g = Some sb \<and> minx pb \<le> minx sb \<and> miny pb \<le> miny sb)"
        unfolding list.set image_insert insert_iff cc inj using True m by blast
      ultimately show ?thesis by blast
    next
      case False
      have "subtiles_loop (Some pb) g (t # tiles) = Inr subs"
      proof (cases "u_tile_bbox c0 g")
        case None
        with Some s show ?thesis by simp
      next
        case (Some sb0)
        with False have "\<not> (minx pb \<le> minx sb0 \<and> miny pb \<le> miny sb0)" by blast
        with Some \<open>t = Some c0\<close> s show ?thesis by simp
      qed
      moreover have "\<forall>c. c \<in> coord ` set subs \<longleftrightarrow>
           Some c \<in> set (t # tiles)
           \<and> (\<exists>sb. u_tile_bbox c g = Some sb \<and> minx pb \<le> minx sb \<and> miny pb \<le> miny sb)"
        unfolding list.set insert_iff inj using False m by blast
      ultimately show ?thesis by blast
    qed
  qed
qed

text \<open>
  C1. For a parent tile with a box, and a candidate that the grid returns for level+1,
  that has a box, and whose box meets the parent's (the candidates of a grid are the
  tiles that the parent's box affects): \<^verbatim>\<open>_get_subtiles\<close> returns, and the candidate is
  among the sub tiles exactly if its lower-left corner lies in the parent's box, both
  bounds included. The code compares the corner with the parent's lower-left corner
  only; the upper bounds hold for every candidate that meets the parent's box.
\<close>

theorem get_subtiles_retains:
  assumes "u_tile_bbox tile (layer_grid l) = Some pb"
    and "grid_get_affected_level_tiles (layer_grid l) (Some pb) (tile_level tile + 1)
           = Inr (ab, tile_grid, tiles)"
    and "Some c \<in> set tiles"
    and "u_tile_bbox c (layer_grid l) = Some sb"
    and "boxes_intersect sb pb"
  shows "\<exists>subs. u_get_subtiles tile l = Inr (tile_grid, subs)
           \<and> (c \<in> coord ` set subs \<longleftrightarrow> corner_in_box sb pb)"
proof -
  obtain subs where s: "subtiles_loop (Some pb) (layer_grid l) tiles = Inr subs"
    and m: "\<And>c. c \<in> coord ` set subs \<longleftrightarrow>
           Some c \<in> set tiles
           \<and> (\<exists>sb. u_tile_bbox c (layer_grid l) = Some sb
                 \<and> minx pb \<le> minx sb \<and> miny pb \<le> miny sb)"
    using subtiles_loop_kept [of pb "layer_grid l" tiles] by blast
  have "u_get_subtiles tile l = Inr (tile_grid, subs)"
    using assms(1,2) s by (simp add: u_get_subtiles_def)
  moreover have "c \<in> coord ` set subs \<longleftrightarrow> corner_in_box sb pb"
    using m [of c] assms(3,4,5) by (auto simp: corner_in_box_def boxes_intersect_def)
  ultimately show ?thesis by blast
qed

text \<open>The staggered grid at its tile \<open>(0, 0, 0)\<close>: the parent's box, the nine candidates of
  level 1, and the boxes of two of them.\<close>

lemma staggered_parent:
  "u_tile_bbox (0, 0, 0) (layer_grid staggered_layer) = Some (0, 0, 2, 2)"
  by (simp add: u_tile_bbox_def staggered_layer_def staggered_grid_def)

lemma staggered_candidates:
  "grid_get_affected_level_tiles (layer_grid staggered_layer) (Some (0, 0, 2, 2))
       (tile_level (0, 0, 0) + 1)
     = Inr ((0, 0, 2, 2), (3, 3),
            [Some (0, 2, 1), Some (1, 2, 1), Some (2, 2, 1),
             Some (0, 1, 1), Some (1, 1, 1), Some (2, 1, 1),
             Some (0, 0, 1), Some (1, 0, 1), Some (2, 0, 1)])"
  by (simp add: staggered_layer_def staggered_grid_def tile_level_def Let_def bbox_sel upto.simps)

lemma staggered_children:
  "u_tile_bbox (0, 0, 1) (layer_grid staggered_layer) = Some (- 1 / 2, - 1 / 2, 1 / 2, 1 / 2)"
  "u_tile_bbox (1, 2, 1) (layer_grid staggered_layer) = Some (1 / 2, 3 / 2, 3 / 2, 5 / 2)"
  by (simp_all add: u_tile_bbox_def staggered_layer_def staggered_grid_def)

theorem get_subtiles_retains_witness:
  "u_tile_bbox (0, 0, 0) (layer_grid staggered_layer) = Some (0, 0, 2, 2)
   \<and> boxes_intersect (- 1 / 2, - 1 / 2, 1 / 2, 1 / 2) (0, 0, 2, 2)
   \<and> \<not> corner_in_box (- 1 / 2, - 1 / 2, 1 / 2, 1 / 2) (0, 0, 2, 2)
   \<and> (\<exists>subs. u_get_subtiles (0, 0, 0) staggered_layer = Inr ((3, 3), subs)
          \<and> (0, 0, 1) \<notin> coord ` set subs)
   \<and> boxes_intersect (1 / 2, 3 / 2, 3 / 2, 5 / 2) (0, 0, 2, 2)
   \<and> corner_in_box (1 / 2, 3 / 2, 3 / 2, 5 / 2) (0, 0, 2, 2)
   \<and> (\<exists>subs. u_get_subtiles (0, 0, 0) staggered_layer = Inr ((3, 3), subs)
          \<and> (1, 2, 1) \<in> coord ` set subs)"
proof -
  have i1: "boxes_intersect (- 1 / 2, - 1 / 2, 1 / 2, 1 / 2) (0, 0, 2, 2)"
    and i2: "boxes_intersect (1 / 2, 3 / 2, 3 / 2, 5 / 2) (0, 0, 2, 2)"
    by (simp_all add: boxes_intersect_def bbox_sel)
  have c1: "\<not> corner_in_box (- 1 / 2, - 1 / 2, 1 / 2, 1 / 2) (0, 0, 2, 2)"
    and c2: "corner_in_box (1 / 2, 3 / 2, 3 / 2, 5 / 2) (0, 0, 2, 2)"
    by (simp_all add: corner_in_box_def bbox_sel)
  have m1: "Some (0, 0, 1) \<in> set [Some (0, 2, 1), Some (1, 2, 1), Some (2, 2, 1),
             Some (0, 1, 1), Some (1, 1, 1), Some (2, 1, 1),
             Some (0, 0, 1), Some (1, 0, 1), Some (2, 0, 1 :: int) :: tile_coord option]"
    and m2: "Some (1, 2, 1) \<in> set [Some (0, 2, 1), Some (1, 2, 1), Some (2, 2, 1),
             Some (0, 1, 1), Some (1, 1, 1), Some (2, 1, 1),
             Some (0, 0, 1), Some (1, 0, 1), Some (2, 0, 1 :: int) :: tile_coord option]"
    by simp_all
  show ?thesis
    using staggered_parent i1 i2 c1 c2
      get_subtiles_retains [OF staggered_parent staggered_candidates m1 staggered_children(1) i1]
      get_subtiles_retains [OF staggered_parent staggered_candidates m2 staggered_children(2) i2]
    by simp
qed

section \<open>The pyramid: subdividing twice\<close>























section \<open>Subdividing twice on any grid\<close>












end
